theory Spec2Isabelle
  imports Main "HOL-Library.Word"
begin

section \<open>The wake boost driver: drivers/cpufreq/cpu_wake_boost.c\<close>

text \<open>
  The driver forces the minimum frequency of the online CPUs to the hardware maximum
  when the display is unblanked, and releases the override after a delay or as soon as
  the display is blanked again. Its code is five callbacks (the module parameter's
  setter, the two work functions, the cpufreq policy notifier and the framebuffer
  notifier) over one \<^verbatim>\<open>struct wake_boost_info\<close> and one global,
  \<^verbatim>\<open>wake_boost_time\<close>. Each callback is a function from the state before
  the call to its return value and the state after it.
\<close>

subsection \<open>Data\<close>

type_synonym u32 = "32 word" \<comment> \<open>\<^verbatim>\<open>unsigned int\<close>\<close>
type_synonym ulong = "64 word" \<comment> \<open>\<^verbatim>\<open>unsigned long\<close> (arm64)\<close>

datatype boost_state = NO_BOOST | UNBOOST | BOOST

definition FB_BOOST_MS :: u32 where
  "FB_BOOST_MS = 2000"

text \<open>
  The fields of \<^verbatim>\<open>struct cpufreq_policy\<close> that the driver touches:
  \<^verbatim>\<open>policy->cpuinfo.max_freq\<close>, \<^verbatim>\<open>policy->cpuinfo.min_freq\<close>,
  \<^verbatim>\<open>policy->min\<close> and \<^verbatim>\<open>policy->max\<close>.
\<close>

record cpufreq_cpuinfo =
  max_freq :: u32
  min_freq :: u32

record cpufreq_policy =
  cpuinfo :: cpufreq_cpuinfo
  min_policy :: u32
  max_policy :: u32

text \<open>The two work items of \<^verbatim>\<open>struct wake_boost_info\<close>.\<close>

datatype work = BOOST_WORK | UNBOOST_WORK

text \<open>
  The calls the driver makes into the rest of the kernel, in the order it makes them.
  The log is a ghost field: no callback reads it.
\<close>

datatype kcall =
    QUEUE_WORK work
  | QUEUE_DELAYED_WORK nat
  | CANCEL_DELAYED_WORK_SYNC
  | CPUFREQ_UPDATE_POLICY nat

datatype error = EINVAL

text \<open>
  The state the callbacks run on. \<open>state\<close> is \<^verbatim>\<open>wake_info->state\<close>;
  \<open>wake_boost_time\<close> is the global behind the module parameter; \<open>wq\<close> holds
  the work items queued on \<^verbatim>\<open>wake_info->wq\<close>, oldest first;
  \<open>unboost_timer\<close> is the expiry of the timer of
  \<^verbatim>\<open>wake_info->unboost_work\<close> when that timer is armed; \<open>jiffies\<close> is the
  clock; \<open>online\<close> lists the online CPUs in the order
  \<^verbatim>\<open>for_each_online_cpu\<close> visits them; \<open>user_policy\<close> gives the bounds the
  cpufreq core proposes for a CPU and \<open>cur_policy\<close> the bounds it last settled on.
\<close>

record wake_boost_sys =
  state :: boost_state
  wake_boost_time :: u32
  wq :: "work list"
  unboost_timer :: "nat option"
  jiffies :: nat
  online :: "nat list"
  user_policy :: "nat \<rightharpoonup> cpufreq_policy"
  cur_policy :: "nat \<rightharpoonup> cpufreq_policy"
  calls :: "kcall list"

subsection \<open>Constants of headers outside the driver\<close>

text \<open>
  Modelled from the spec: the notifier actions and return code of
  \<^verbatim>\<open>include/linux/cpufreq.h\<close>, \<^verbatim>\<open>include/linux/notifier.h\<close> and
  \<^verbatim>\<open>include/linux/fb.h\<close>, which the driver only includes. The spec speaks of
  the policy evaluation and of the early phase of a blank or unblank transition; the
  numbers are the kernel's, and the theorems below use no more of them than that they
  are distinct.
\<close>

definition CPUFREQ_ADJUST :: ulong where
  "CPUFREQ_ADJUST = 0"

definition CPUFREQ_INCOMPATIBLE :: ulong where
  "CPUFREQ_INCOMPATIBLE = 1"

definition CPUFREQ_NOTIFY :: ulong where
  "CPUFREQ_NOTIFY = 2"

definition NOTIFY_OK :: int where
  "NOTIFY_OK = 1"

definition FB_EVENT_BLANK :: ulong where
  "FB_EVENT_BLANK = 0x09"

definition FB_EARLY_EVENT_BLANK :: ulong where
  "FB_EARLY_EVENT_BLANK = 0x10"

definition FB_BLANK_UNBLANK :: u32 where
  "FB_BLANK_UNBLANK = 0"

definition FB_BLANK_POWERDOWN :: u32 where
  "FB_BLANK_POWERDOWN = 4"

subsection \<open>The policy notifier\<close>

text \<open>
  \<^verbatim>\<open>do_cpu_boost\<close>: \<open>w\<close> is the state found through
  \<^verbatim>\<open>container_of\<close>, \<open>policy\<close> the \<^verbatim>\<open>data\<close> argument. The comparison
  of \<^verbatim>\<open>policy->max\<close> with \<^verbatim>\<open>policy->min\<close> reads the minimum just
  written.
\<close>

definition do_cpu_boost ::
  "ulong \<Rightarrow> cpufreq_policy \<Rightarrow> wake_boost_sys \<Rightarrow> int \<times> cpufreq_policy \<times> wake_boost_sys" where
  "do_cpu_boost action policy w =
     (if action \<noteq> CPUFREQ_ADJUST then (NOTIFY_OK, policy, w)
      else
        (case state w of
           UNBOOST \<Rightarrow>
             (NOTIFY_OK, policy\<lparr>min_policy := min_freq (cpuinfo policy)\<rparr>, w\<lparr>state := NO_BOOST\<rparr>)
         | BOOST \<Rightarrow>
             (let policy = policy\<lparr>min_policy := max_freq (cpuinfo policy)\<rparr>;
                  policy = (if max_policy policy < min_policy policy
                            then policy\<lparr>max_policy := min_policy policy\<rparr> else policy)
              in (NOTIFY_OK, policy, w))
         | NO_BOOST \<Rightarrow> (NOTIFY_OK, policy, w)))"

subsection \<open>The workqueue, the timer and the cpufreq core\<close>

text \<open>
  Modelled from the spec: \<^verbatim>\<open>delayed_work_pending\<close> of
  \<^verbatim>\<open>include/linux/workqueue.h\<close>, which is not under src/. The spec's controller
  owns one pending, cancelable delayed unboost task: it is pending while its timer is
  armed or while it waits on the queue for the worker.
\<close>

definition delayed_work_pending :: "wake_boost_sys \<Rightarrow> bool" where
  "delayed_work_pending s \<longleftrightarrow> unboost_timer s \<noteq> None \<or> UNBOOST_WORK \<in> set (wq s)"

text \<open>
  Modelled from the spec: \<^verbatim>\<open>queue_work\<close> of \<^verbatim>\<open>kernel/workqueue.c\<close>,
  which is not under src/. The spec's scheduler takes a task for immediate execution on
  a single serialized worker and coalesces a submission of a task that is already
  queued: the queued one stays where it is.
\<close>

definition queue_work :: "work \<Rightarrow> wake_boost_sys \<Rightarrow> wake_boost_sys" where
  "queue_work item s =
     (let s = s\<lparr>calls := calls s @ [QUEUE_WORK item]\<rparr>
      in if item \<in> set (wq s) then s else s\<lparr>wq := wq s @ [item]\<rparr>)"

text \<open>
  Modelled from the spec: \<^verbatim>\<open>queue_delayed_work\<close> of
  \<^verbatim>\<open>kernel/workqueue.c\<close> on \<^verbatim>\<open>unboost_work\<close>. The spec's scheduler
  holds one delayed unboost task and coalesces submissions: a submission while the task
  is pending changes nothing; otherwise a zero delay queues the task at once and a
  positive delay arms its timer that far after the present.
\<close>

definition queue_delayed_work :: "nat \<Rightarrow> wake_boost_sys \<Rightarrow> wake_boost_sys" where
  "queue_delayed_work delay s =
     (let s = s\<lparr>calls := calls s @ [QUEUE_DELAYED_WORK delay]\<rparr>
      in if delayed_work_pending s then s
         else if delay = 0 then s\<lparr>wq := wq s @ [UNBOOST_WORK]\<rparr>
         else s\<lparr>unboost_timer := Some (jiffies s + delay)\<rparr>)"

text \<open>
  Modelled from the spec: \<^verbatim>\<open>cancel_delayed_work_sync\<close> of
  \<^verbatim>\<open>kernel/workqueue.c\<close> on \<^verbatim>\<open>unboost_work\<close>. The spec's scheduler
  cancels the delayed task if it is pending and says whether it was: the timer is
  disarmed and the task is taken off the queue.
\<close>

definition cancel_delayed_work_sync :: "wake_boost_sys \<Rightarrow> bool \<times> wake_boost_sys" where
  "cancel_delayed_work_sync s =
     (delayed_work_pending s,
      s\<lparr>unboost_timer := None, wq := removeAll UNBOOST_WORK (wq s),
        calls := calls s @ [CANCEL_DELAYED_WORK_SYNC]\<rparr>)"

text \<open>
  Modelled from the spec: \<^verbatim>\<open>msecs_to_jiffies\<close> of
  \<^verbatim>\<open>include/linux/jiffies.h\<close>, which is not under src/. The spec measures the
  delay of the unboost task in the time-units of the stored duration, so the clock of
  the model ticks in those units.
\<close>

definition msecs_to_jiffies :: "u32 \<Rightarrow> nat" where
  "msecs_to_jiffies m = unat m"

text \<open>
  Modelled from the spec: \<^verbatim>\<open>cpufreq_update_policy\<close> of
  \<^verbatim>\<open>drivers/cpufreq/cpufreq.c\<close>, which is not under src/. The spec's policy
  notifier, asked to re-evaluate a core, synchronously invokes the registered
  bounds-adjustment callback once with the bounds currently proposed for that core and
  takes the adjusted bounds it returns. A CPU without a policy has nothing to evaluate.
\<close>

definition cpufreq_update_policy :: "nat \<Rightarrow> wake_boost_sys \<Rightarrow> wake_boost_sys" where
  "cpufreq_update_policy cpu s =
     (let s = s\<lparr>calls := calls s @ [CPUFREQ_UPDATE_POLICY cpu]\<rparr>
      in case user_policy s cpu of
           None \<Rightarrow> s
         | Some p \<Rightarrow>
             (case do_cpu_boost CPUFREQ_ADJUST p s of
                (ret, p', s') \<Rightarrow> s'\<lparr>cur_policy := (cur_policy s')(cpu \<mapsto> p')\<rparr>))"

text \<open>
  Modelled from the spec: the character classes \<^verbatim>\<open>isspace\<close> and
  \<^verbatim>\<open>isdigit\<close> of \<^verbatim>\<open>lib/ctype.c\<close> and the value of a decimal digit,
  which are not under src/. The spec speaks only of a non-negative integer; these are
  the classes the conversion below reads the buffer with: white space is the characters
  9 to 13, the blank 32 and 160, and a digit is \<^verbatim>\<open>'0'\<close> to \<^verbatim>\<open>'9'\<close>.
\<close>

definition isspace :: "char \<Rightarrow> bool" where
  "isspace c \<longleftrightarrow>
     (9 \<le> (of_char c :: nat) \<and> (of_char c :: nat) \<le> 13)
     \<or> (of_char c :: nat) = 32 \<or> (of_char c :: nat) = 160"

definition is_digit :: "char \<Rightarrow> bool" where
  "is_digit c \<longleftrightarrow> 48 \<le> (of_char c :: nat) \<and> (of_char c :: nat) \<le> 57"

definition digit_val :: "char \<Rightarrow> nat" where
  "digit_val c = of_char c - 48"

text \<open>
  Modelled from the spec: \<^verbatim>\<open>simple_strtoul\<close> of \<^verbatim>\<open>lib/vsprintf.c\<close> in
  base 10, which is not under src/: the value of the run of decimal digits the string
  starts with. What follows the digits is not read.
\<close>

definition simple_strtoul :: "string \<Rightarrow> nat" where
  "simple_strtoul str = foldl (\<lambda>n c. 10 * n + digit_val c) 0 (takeWhile is_digit str)"

text \<open>
  Modelled from the spec: the conversion \<^verbatim>\<open>sscanf(buf, "%u\n", &val)\<close> of
  \<^verbatim>\<open>lib/vsprintf.c\<close>, which is not under src/; \<open>buf\<close> is the text before the
  terminating NUL. The spec asks for a value that parses as a non-negative integer and
  leaves the parsing to the conversion, which is the kernel's \<^verbatim>\<open>%u\<close>: white
  space at the start of the buffer is skipped; if the buffer ends there or the next
  character is not a decimal digit, nothing is converted and the result is not 1;
  otherwise the run of digits is converted, the value is cut to the 32 bits of
  \<^verbatim>\<open>unsigned int\<close>, and the rest of the buffer is not examined.
\<close>

definition sscanf_u :: "string \<Rightarrow> u32 option" where
  "sscanf_u buf =
     (let str = dropWhile isspace buf
      in case str of
           [] \<Rightarrow> None
         | digit # _ \<Rightarrow>
             if is_digit digit then Some (of_nat (simple_strtoul str)) else None)"

subsection \<open>The module parameter\<close>

text \<open>
  \<^verbatim>\<open>set_wake_boost\<close>. The conversion of the buffer is a parameter \<open>scan\<close>:
  \<open>None\<close> when \<^verbatim>\<open>sscanf\<close> does not return 1, the converted value
  otherwise. The driver runs with \<open>sscanf_u\<close> for it.
\<close>

definition set_wake_boost ::
  "(string \<Rightarrow> u32 option) \<Rightarrow> string \<Rightarrow> wake_boost_sys \<Rightarrow> (error + unit) \<times> wake_boost_sys" where
  "set_wake_boost scan buf s =
     (case scan buf of
        None \<Rightarrow> (Inl EINVAL, s)
      | Some val \<Rightarrow> (Inr (), queue_work BOOST_WORK (s\<lparr>wake_boost_time := val\<rparr>)))"

subsection \<open>The work functions\<close>

text \<open>\<^verbatim>\<open>update_online_cpu_policy\<close>: one policy update per online CPU, in order.\<close>

definition update_online_cpu_policy :: "wake_boost_sys \<Rightarrow> wake_boost_sys" where
  "update_online_cpu_policy s = fold cpufreq_update_policy (online s) s"

text \<open>
  \<^verbatim>\<open>wake_boost\<close>: the delay is computed from \<^verbatim>\<open>wake_boost_time\<close> as it
  is when the work function runs.
\<close>

definition wake_boost :: "wake_boost_sys \<Rightarrow> wake_boost_sys" where
  "wake_boost w =
     (let w = w\<lparr>state := BOOST\<rparr>;
          w = update_online_cpu_policy w
      in queue_delayed_work (msecs_to_jiffies (wake_boost_time w)) w)"

text \<open>\<^verbatim>\<open>wake_unboost\<close>.\<close>

definition wake_unboost :: "wake_boost_sys \<Rightarrow> wake_boost_sys" where
  "wake_unboost w = update_online_cpu_policy (w\<lparr>state := UNBOOST\<rparr>)"

subsection \<open>The framebuffer notifier\<close>

text \<open>
  \<^verbatim>\<open>fb_notifier_callback\<close>: \<open>blank\<close> is \<^verbatim>\<open>*(int *)evdata->data\<close>.
\<close>

definition fb_notifier_callback ::
  "ulong \<Rightarrow> u32 \<Rightarrow> wake_boost_sys \<Rightarrow> int \<times> wake_boost_sys" where
  "fb_notifier_callback action blank w =
     (if action \<noteq> FB_EARLY_EVENT_BLANK then (NOTIFY_OK, w)
      else if blank = FB_BLANK_UNBLANK
      then (NOTIFY_OK, queue_work BOOST_WORK (w\<lparr>wake_boost_time := FB_BOOST_MS\<rparr>))
      else
        (case cancel_delayed_work_sync w of
           (was_pending, w') \<Rightarrow>
             (NOTIFY_OK, if was_pending then queue_delayed_work 0 w' else w')))"

subsection \<open>Runs of the driver\<close>

text \<open>
  Modelled from the spec: the worker of \<^verbatim>\<open>kernel/workqueue.c\<close>, which is not
  under src/. The spec's single serialized worker takes the oldest queued task off the
  queue and runs its function to the end; a task is no longer pending once its function
  starts.
\<close>

definition worker :: "wake_boost_sys \<Rightarrow> wake_boost_sys" where
  "worker s =
     (case wq s of
        [] \<Rightarrow> s
      | BOOST_WORK # rest \<Rightarrow> wake_boost (s\<lparr>wq := rest\<rparr>)
      | UNBOOST_WORK # rest \<Rightarrow> wake_unboost (s\<lparr>wq := rest\<rparr>))"

text \<open>
  Modelled from the spec: the timer of the delayed work, of
  \<^verbatim>\<open>kernel/workqueue.c\<close>, which is not under src/. The spec's unboost task
  fires after the armed duration: when \<open>n\<close> time-units pass and the expiry of the
  timer is reached, the timer is disarmed and the unboost work is put on the queue.
\<close>

definition elapse :: "nat \<Rightarrow> wake_boost_sys \<Rightarrow> wake_boost_sys" where
  "elapse n s =
     (let s = s\<lparr>jiffies := jiffies s + n\<rparr>
      in case unboost_timer s of
           None \<Rightarrow> s
         | Some expires \<Rightarrow>
             if expires \<le> jiffies s
             then s\<lparr>unboost_timer := None, wq := wq s @ [UNBOOST_WORK]\<rparr>
             else s)"

text \<open>
  What can happen to the driver: a framebuffer event, a write to the module parameter,
  the worker running the next queued work item, time passing.
\<close>

datatype event =
    FB_EVENT ulong u32
  | PARAM_WRITE string
  | WORKER
  | ELAPSE nat

fun step :: "event \<Rightarrow> wake_boost_sys \<Rightarrow> wake_boost_sys" where
  "step (FB_EVENT action blank) s = snd (fb_notifier_callback action blank s)"
| "step (PARAM_WRITE buf) s = snd (set_wake_boost sscanf_u buf s)"
| "step WORKER s = worker s"
| "step (ELAPSE n) s = elapse n s"

definition run :: "event list \<Rightarrow> wake_boost_sys \<Rightarrow> wake_boost_sys" where
  "run evs s = fold step evs s"

text \<open>
  The state \<^verbatim>\<open>cpu_wake_boost_init\<close> leaves when its allocations succeed
  (\<^verbatim>\<open>kzalloc\<close> zeroes the structure, so the state is \<^verbatim>\<open>NO_BOOST\<close>
  and no work is pending; the global starts at 0), on a machine with the CPUs \<open>cpus\<close>
  online and the proposed bounds \<open>pols\<close>.
\<close>

definition cpu_wake_boost_init :: "nat list \<Rightarrow> (nat \<rightharpoonup> cpufreq_policy) \<Rightarrow> wake_boost_sys" where
  "cpu_wake_boost_init cpus pols =
     \<lparr>state = NO_BOOST, wake_boost_time = 0, wq = [], unboost_timer = None, jiffies = 0,
      online = cpus, user_policy = pols, cur_policy = pols, calls = []\<rparr>"

text \<open>A policy for the examples: a core that runs from 300 MHz to 2 GHz, held at 300-1500.\<close>

definition example_policy :: cpufreq_policy where
  "example_policy =
     \<lparr>cpuinfo = \<lparr>max_freq = 2000000, min_freq = 300000\<rparr>,
      min_policy = 300000, max_policy = 1500000\<rparr>"

definition example_sys :: wake_boost_sys where
  "example_sys = cpu_wake_boost_init [0, 1] [0 \<mapsto> example_policy, 1 \<mapsto> example_policy]"

text \<open>
  The shape of the queue and the timer in every state the driver reaches: no work item
  is queued twice, and while the timer of the unboost work is armed its expiry is still
  ahead and the unboost work is not on the queue.
\<close>

definition wq_ok :: "wake_boost_sys \<Rightarrow> bool" where
  "wq_ok s \<longleftrightarrow>
     distinct (wq s) \<and>
     (case unboost_timer s of
        None \<Rightarrow> True
      | Some expires \<Rightarrow> jiffies s < expires \<and> UNBOOST_WORK \<notin> set (wq s))"

section \<open>The policy notifier on its own\<close>

lemma actions_distinct:
  "CPUFREQ_NOTIFY \<noteq> CPUFREQ_ADJUST" "CPUFREQ_INCOMPATIBLE \<noteq> CPUFREQ_ADJUST"
  by (simp_all add: CPUFREQ_NOTIFY_def CPUFREQ_INCOMPATIBLE_def CPUFREQ_ADJUST_def)

lemma example_sys_simps:
  "state example_sys = NO_BOOST" "wake_boost_time example_sys = 0" "wq example_sys = []"
  "unboost_timer example_sys = None" "jiffies example_sys = 0" "online example_sys = [0, 1]"
  "calls example_sys = []"
  "user_policy example_sys 0 = Some example_policy"
  "user_policy example_sys (Suc 0) = Some example_policy"
  by (simp_all add: example_sys_def cpu_wake_boost_init_def)

text \<open>
  C1, as amended. When the notifier is called with the action
  \<^verbatim>\<open>CPUFREQ_ADJUST\<close> while the state is \<^verbatim>\<open>BOOST\<close>, it returns
  \<^verbatim>\<open>NOTIFY_OK\<close>, sets the policy's minimum to the hardware maximum of the core,
  raises the policy's maximum to that minimum if it was below it, touches nothing else
  of the policy, and leaves the driver's state as it was, so still \<^verbatim>\<open>BOOST\<close>.
\<close>

theorem do_cpu_boost_adjust_boosted:
  "state w = BOOST \<Longrightarrow>
     (case do_cpu_boost CPUFREQ_ADJUST policy w of
        (ret, policy', w') \<Rightarrow>
          ret = NOTIFY_OK \<and>
          min_policy policy' = max_freq (cpuinfo policy) \<and>
          max_policy policy' =
            (if max_policy policy < max_freq (cpuinfo policy)
             then max_freq (cpuinfo policy) else max_policy policy) \<and>
          \<not> max_policy policy' < min_policy policy' \<and>
          cpuinfo policy' = cpuinfo policy \<and>
          w' = w \<and> state w' = BOOST)"
  by (simp add: do_cpu_boost_def Let_def)

text \<open>
  The amended C1 at a policy of 300000 to 1500000 on a core whose hardware maximum is
  2000000: both bounds end at 2000000.
\<close>

theorem do_cpu_boost_adjust_boosted_witness:
  "state (example_sys\<lparr>state := BOOST\<rparr>) = BOOST \<and>
   min_policy (fst (snd (do_cpu_boost CPUFREQ_ADJUST example_policy
                           (example_sys\<lparr>state := BOOST\<rparr>)))) = 2000000 \<and>
   max_policy (fst (snd (do_cpu_boost CPUFREQ_ADJUST example_policy
                           (example_sys\<lparr>state := BOOST\<rparr>)))) = 2000000 \<and>
   state (snd (snd (do_cpu_boost CPUFREQ_ADJUST example_policy
                      (example_sys\<lparr>state := BOOST\<rparr>)))) = BOOST"
  using do_cpu_boost_adjust_boosted [of "example_sys\<lparr>state := BOOST\<rparr>" example_policy]
  by (simp add: example_policy_def split: prod.splits)

text \<open>
  C1 as stated fails: called with \<^verbatim>\<open>CPUFREQ_NOTIFY\<close> while the state is
  \<^verbatim>\<open>BOOST\<close>, the notifier leaves the minimum at 300000 although the hardware
  maximum is 2000000.
\<close>

theorem do_cpu_boost_boosted_counterexample:
  "state (example_sys\<lparr>state := BOOST\<rparr>) = BOOST \<and>
   max_freq (cpuinfo example_policy) = 2000000 \<and>
   min_policy (fst (snd (do_cpu_boost CPUFREQ_NOTIFY example_policy
                           (example_sys\<lparr>state := BOOST\<rparr>)))) = 300000"
  by (simp add: do_cpu_boost_def example_policy_def actions_distinct)

text \<open>
  C9. While the state is \<^verbatim>\<open>NO_BOOST\<close> every call of the notifier returns the
  policy and the state unchanged. For any state and any action, calling the notifier
  again on the policy it returned gives that same policy, whether the second call sees
  the state of the first call or the state the first call left.
\<close>

theorem do_cpu_boost_idempotent:
  "(state w = NO_BOOST \<longrightarrow> do_cpu_boost action policy w = (NOTIFY_OK, policy, w)) \<and>
   fst (snd (do_cpu_boost action (fst (snd (do_cpu_boost action policy w))) w))
     = fst (snd (do_cpu_boost action policy w)) \<and>
   fst (snd (do_cpu_boost action (fst (snd (do_cpu_boost action policy w)))
                (snd (snd (do_cpu_boost action policy w)))))
     = fst (snd (do_cpu_boost action policy w))"
  by (cases "state w") (simp_all add: do_cpu_boost_def Let_def)

text \<open>
  C9 at the idle example state: the policy comes back as it went in, and a second
  call on the result changes nothing either.
\<close>

theorem do_cpu_boost_idempotent_witness:
  "state example_sys = NO_BOOST \<and>
   do_cpu_boost CPUFREQ_ADJUST example_policy example_sys
     = (NOTIFY_OK, example_policy, example_sys) \<and>
   fst (snd (do_cpu_boost CPUFREQ_ADJUST
               (fst (snd (do_cpu_boost CPUFREQ_ADJUST example_policy example_sys)))
               example_sys))
     = example_policy"
  using do_cpu_boost_idempotent [of example_sys CPUFREQ_ADJUST example_policy]
  by (simp add: example_sys_simps)

text \<open>
  C10. For every notifier action other than \<^verbatim>\<open>CPUFREQ_ADJUST\<close> the notifier
  returns \<^verbatim>\<open>NOTIFY_OK\<close> and leaves the policy and the whole state of the driver
  as they were; in particular the state \<^verbatim>\<open>UNBOOST\<close> stays
  \<^verbatim>\<open>UNBOOST\<close>.
\<close>

theorem do_cpu_boost_other_action:
  "action \<noteq> CPUFREQ_ADJUST \<Longrightarrow> do_cpu_boost action policy w = (NOTIFY_OK, policy, w)"
  by (simp add: do_cpu_boost_def)

text \<open>
  C10 at the action \<^verbatim>\<open>CPUFREQ_NOTIFY\<close> in the state \<^verbatim>\<open>UNBOOST\<close>:
  the state is not consumed.
\<close>

theorem do_cpu_boost_other_action_witness:
  "CPUFREQ_NOTIFY \<noteq> CPUFREQ_ADJUST \<and>
   do_cpu_boost CPUFREQ_NOTIFY example_policy (example_sys\<lparr>state := UNBOOST\<rparr>)
     = (NOTIFY_OK, example_policy, example_sys\<lparr>state := UNBOOST\<rparr>) \<and>
   state (snd (snd (do_cpu_boost CPUFREQ_NOTIFY example_policy
                      (example_sys\<lparr>state := UNBOOST\<rparr>)))) = UNBOOST"
  using do_cpu_boost_other_action
    [OF actions_distinct(1), of example_policy "example_sys\<lparr>state := UNBOOST\<rparr>"]
  by (simp add: actions_distinct)

section \<open>The module parameter and the framebuffer notifier\<close>

lemma queue_work_fields:
  "state (queue_work item s) = state s"
  "wake_boost_time (queue_work item s) = wake_boost_time s"
  "unboost_timer (queue_work item s) = unboost_timer s"
  "jiffies (queue_work item s) = jiffies s"
  "online (queue_work item s) = online s"
  "user_policy (queue_work item s) = user_policy s"
  "cur_policy (queue_work item s) = cur_policy s"
  "calls (queue_work item s) = calls s @ [QUEUE_WORK item]"
  "wq (queue_work item s) = (if item \<in> set (wq s) then wq s else wq s @ [item])"
  by (simp_all add: queue_work_def Let_def)

lemma sscanf_u_examples:
  "sscanf_u ''5000'' = Some 5000" "sscanf_u ''boost'' = None" "sscanf_u [] = None"
  by (simp_all add: sscanf_u_def simple_strtoul_def isspace_def is_digit_def digit_val_def)

lemma blank_distinct: "FB_BLANK_POWERDOWN \<noteq> FB_BLANK_UNBLANK"
  by (simp add: FB_BLANK_POWERDOWN_def FB_BLANK_UNBLANK_def)

text \<open>
  Only the early phase of a blank or unblank transition is looked at: the framebuffer
  notifier ignores every other action, \<^verbatim>\<open>FB_EVENT_BLANK\<close> among them.
\<close>

lemma fb_notifier_callback_other_action:
  "action \<noteq> FB_EARLY_EVENT_BLANK \<Longrightarrow> fb_notifier_callback action blank w = (NOTIFY_OK, w)"
  by (simp add: fb_notifier_callback_def)

lemma fb_notifier_callback_late_blank:
  "fb_notifier_callback FB_EVENT_BLANK blank w = (NOTIFY_OK, w)"
  by (simp add: fb_notifier_callback_other_action FB_EVENT_BLANK_def FB_EARLY_EVENT_BLANK_def)

text \<open>
  What the conversion does with a buffer, by its shape: white space only, white space
  and then a character that is neither white space nor a digit, white space and then a
  run of digits that ends at the end of the buffer or before a character that is not a
  digit.
\<close>

lemma digit_not_space: "is_digit c \<Longrightarrow> \<not> isspace c"
  by (simp add: is_digit_def isspace_def)

lemma skip_spaces_split:
  "list_all isspace ws \<Longrightarrow> \<not> isspace c \<Longrightarrow> dropWhile isspace (ws @ c # rest) = c # rest"
  by (induction ws) simp_all

lemma skip_spaces_all: "list_all isspace ws \<Longrightarrow> dropWhile isspace ws = []"
  by (induction ws) simp_all

lemma digits_run:
  "list_all is_digit ds \<Longrightarrow> rest = [] \<or> \<not> is_digit (hd rest) \<Longrightarrow>
   takeWhile is_digit (ds @ rest) = ds"
proof -
  assume ds: "list_all is_digit ds" and r: "rest = [] \<or> \<not> is_digit (hd rest)"
  from r have "takeWhile is_digit rest = []"
    by (cases rest) simp_all
  with ds show ?thesis
    by (induction ds) simp_all
qed

lemma sscanf_u_refuses_blank: "list_all isspace buf \<Longrightarrow> sscanf_u buf = None"
  by (simp add: sscanf_u_def skip_spaces_all)

lemma sscanf_u_refuses:
  "list_all isspace ws \<Longrightarrow> \<not> isspace c \<Longrightarrow> \<not> is_digit c \<Longrightarrow>
   sscanf_u (ws @ c # rest) = None"
  by (simp add: sscanf_u_def skip_spaces_split)

lemma sscanf_u_converts:
  assumes "list_all isspace ws" "ds \<noteq> []" "list_all is_digit ds"
    "rest = [] \<or> \<not> is_digit (hd rest)"
  shows "sscanf_u (ws @ ds @ rest) =
    Some (of_nat (foldl (\<lambda>n c. 10 * n + digit_val c) 0 ds))"
proof -
  from assms(2) obtain d ds' where ds: "ds = d # ds'"
    by (cases ds) simp_all
  with assms(3) have d: "is_digit d" by simp
  then have "\<not> isspace d" by (rule digit_not_space)
  with assms(1) have "dropWhile isspace (ws @ ds @ rest) = ds @ rest"
    using skip_spaces_split [of ws d "ds' @ rest"] by (simp add: ds)
  moreover have "takeWhile is_digit (ds @ rest) = ds"
    using assms(3,4) by (rule digits_run)
  ultimately show ?thesis
    using d by (simp add: sscanf_u_def simple_strtoul_def ds)
qed

lemma buffer_shapes:
  "list_all isspace buf \<or>
   (\<exists>ws c rest. buf = ws @ c # rest \<and> list_all isspace ws \<and> \<not> isspace c \<and> \<not> is_digit c) \<or>
   (\<exists>ws ds rest. buf = ws @ ds @ rest \<and> list_all isspace ws \<and> ds \<noteq> [] \<and>
      list_all is_digit ds \<and> (rest = [] \<or> \<not> is_digit (hd rest)))"
proof -
  let ?ws = "takeWhile isspace buf" and ?str = "dropWhile isspace buf"
  have buf: "buf = ?ws @ ?str" by simp
  have ws: "list_all isspace ?ws"
    by (simp add: list_all_iff) (meson set_takeWhileD)
  show ?thesis
  proof (cases ?str)
    case Nil
    with buf ws show ?thesis by simp
  next
    case (Cons c rest)
    then have c: "\<not> isspace c"
      using hd_dropWhile [of isspace buf] by simp
    show ?thesis
    proof (cases "is_digit c")
      case False
      from buf Cons have "buf = ?ws @ c # rest" by simp
      with ws c False show ?thesis by blast
    next
      case True
      let ?ds = "takeWhile is_digit ?str" and ?rest = "dropWhile is_digit ?str"
      have "buf = ?ws @ ?ds @ ?rest" by simp
      moreover have "?ds \<noteq> []" using Cons True by simp
      moreover have "list_all is_digit ?ds"
        by (simp add: list_all_iff) (meson set_takeWhileD)
      moreover have "?rest = [] \<or> \<not> is_digit (hd ?rest)"
        using hd_dropWhile [of is_digit ?str] by blast
      ultimately show ?thesis using ws by blast
    qed
  qed
qed

lemma conv_examples:
  "sscanf_u ''12abc'' = Some 12" "sscanf_u '' 42'' = Some 42" "sscanf_u ''-1'' = None"
  "sscanf_u ''4294967297'' = Some 1"
  by (simp_all add: sscanf_u_def simple_strtoul_def isspace_def is_digit_def digit_val_def)

text \<open>
  C4, as amended. \<^verbatim>\<open>set_wake_boost\<close> returns \<^verbatim>\<open>-EINVAL\<close> and leaves
  the whole state, so the stored duration and the boost state, as it was when the buffer
  is empty or all white space, and when its first character after the leading white
  space is not a decimal digit. In every other case, that is when a non-empty run of
  decimal digits follows the leading white space, the call succeeds whatever comes after
  the digits: the value of the run, cut to 32 bits, is the stored duration, and the
  boost work has been submitted and is on the queue; the boost state and the timer of
  the unboost work are not touched by the call itself. Every buffer has one of these
  shapes.
\<close>

theorem set_wake_boost_validates:
  "(list_all isspace buf \<longrightarrow> set_wake_boost sscanf_u buf s = (Inl EINVAL, s)) \<and>
   (\<forall>ws c rest.
      buf = ws @ c # rest \<and> list_all isspace ws \<and> \<not> isspace c \<and> \<not> is_digit c \<longrightarrow>
      set_wake_boost sscanf_u buf s = (Inl EINVAL, s)) \<and>
   (\<forall>ws ds rest.
      buf = ws @ ds @ rest \<and> list_all isspace ws \<and> ds \<noteq> [] \<and> list_all is_digit ds \<and>
      (rest = [] \<or> \<not> is_digit (hd rest)) \<longrightarrow>
      (case set_wake_boost sscanf_u buf s of
         (ret, s') \<Rightarrow>
           ret = Inr () \<and>
           wake_boost_time s' = of_nat (foldl (\<lambda>n c. 10 * n + digit_val c) 0 ds) \<and>
           calls s' = calls s @ [QUEUE_WORK BOOST_WORK] \<and>
           BOOST_WORK \<in> set (wq s') \<and>
           wq s' = (if BOOST_WORK \<in> set (wq s) then wq s else wq s @ [BOOST_WORK]) \<and>
           state s' = state s \<and> unboost_timer s' = unboost_timer s)) \<and>
   (list_all isspace buf \<or>
    (\<exists>ws c rest. buf = ws @ c # rest \<and> list_all isspace ws \<and> \<not> isspace c \<and> \<not> is_digit c) \<or>
    (\<exists>ws ds rest. buf = ws @ ds @ rest \<and> list_all isspace ws \<and> ds \<noteq> [] \<and>
       list_all is_digit ds \<and> (rest = [] \<or> \<not> is_digit (hd rest))))"
proof (intro conjI)
  show "list_all isspace buf \<longrightarrow> set_wake_boost sscanf_u buf s = (Inl EINVAL, s)"
    by (simp add: set_wake_boost_def sscanf_u_refuses_blank)
  show "\<forall>ws c rest.
      buf = ws @ c # rest \<and> list_all isspace ws \<and> \<not> isspace c \<and> \<not> is_digit c \<longrightarrow>
      set_wake_boost sscanf_u buf s = (Inl EINVAL, s)"
    by (auto simp add: set_wake_boost_def sscanf_u_refuses)
  show "\<forall>ws ds rest.
      buf = ws @ ds @ rest \<and> list_all isspace ws \<and> ds \<noteq> [] \<and> list_all is_digit ds \<and>
      (rest = [] \<or> \<not> is_digit (hd rest)) \<longrightarrow>
      (case set_wake_boost sscanf_u buf s of
         (ret, s') \<Rightarrow>
           ret = Inr () \<and>
           wake_boost_time s' = of_nat (foldl (\<lambda>n c. 10 * n + digit_val c) 0 ds) \<and>
           calls s' = calls s @ [QUEUE_WORK BOOST_WORK] \<and>
           BOOST_WORK \<in> set (wq s') \<and>
           wq s' = (if BOOST_WORK \<in> set (wq s) then wq s else wq s @ [BOOST_WORK]) \<and>
           state s' = state s \<and> unboost_timer s' = unboost_timer s)"
    by (auto simp add: set_wake_boost_def queue_work_fields sscanf_u_converts)
  show "list_all isspace buf \<or>
    (\<exists>ws c rest. buf = ws @ c # rest \<and> list_all isspace ws \<and> \<not> isspace c \<and> \<not> is_digit c) \<or>
    (\<exists>ws ds rest. buf = ws @ ds @ rest \<and> list_all isspace ws \<and> ds \<noteq> [] \<and>
       list_all is_digit ds \<and> (rest = [] \<or> \<not> is_digit (hd rest)))"
    by (rule buffer_shapes)
qed

text \<open>
  The amended C4 at three buffers: a blank and \<open>''boost''\<close> are refused and nothing
  changes; a blank, \<open>''5000''\<close> and then \<open>''ms''\<close> stores 5000 and queues the boost
  work.
\<close>

theorem set_wake_boost_validates_witness:
  "list_all isspace '' '' \<and>
   set_wake_boost sscanf_u '' '' example_sys = (Inl EINVAL, example_sys) \<and>
   \<not> isspace CHR ''b'' \<and> \<not> is_digit CHR ''b'' \<and>
   set_wake_boost sscanf_u ''boost'' example_sys = (Inl EINVAL, example_sys) \<and>
   list_all is_digit ''5000'' \<and> \<not> is_digit (hd ''ms'') \<and>
   fst (set_wake_boost sscanf_u '' 5000ms'' example_sys) = Inr () \<and>
   wake_boost_time (snd (set_wake_boost sscanf_u '' 5000ms'' example_sys)) = 5000 \<and>
   wq (snd (set_wake_boost sscanf_u '' 5000ms'' example_sys)) = [BOOST_WORK]"
proof -
  note v = set_wake_boost_validates
  have cls: "list_all isspace '' ''" "\<not> isspace CHR ''b''" "\<not> is_digit CHR ''b''"
    "list_all is_digit ''5000''" "\<not> is_digit (hd ''ms'')"
    by (simp_all add: isspace_def is_digit_def)
  from v [of "'' ''" example_sys] cls
  have a: "set_wake_boost sscanf_u '' '' example_sys = (Inl EINVAL, example_sys)"
    by simp
  from v [of "''boost''" example_sys, THEN conjunct2, THEN conjunct1,
      rule_format, of "[]" "CHR ''b''" "''oost''"] cls
  have b: "set_wake_boost sscanf_u ''boost'' example_sys = (Inl EINVAL, example_sys)"
    by simp
  from v [of "'' 5000ms''" example_sys, THEN conjunct2, THEN conjunct2, THEN conjunct1,
      rule_format, of "'' ''" "''5000''" "''ms''"] cls
  have c: "fst (set_wake_boost sscanf_u '' 5000ms'' example_sys) = Inr ()"
    "wake_boost_time (snd (set_wake_boost sscanf_u '' 5000ms'' example_sys)) = 5000"
    "wq (snd (set_wake_boost sscanf_u '' 5000ms'' example_sys)) = [BOOST_WORK]"
    by (simp_all add: digit_val_def example_sys_simps split: prod.splits)
  from a b c cls show ?thesis by simp
qed

text \<open>
  C4 as stated fails: \<open>''12abc''\<close> is not a well-formed non-negative integer, yet the
  call succeeds, stores 12 and queues the boost work; a blank before \<open>''42''\<close> is
  accepted as well.
\<close>

theorem set_wake_boost_counterexample:
  "\<not> list_all is_digit ''12abc'' \<and>
   fst (set_wake_boost sscanf_u ''12abc'' example_sys) = Inr () \<and>
   wake_boost_time (snd (set_wake_boost sscanf_u ''12abc'' example_sys)) = 12 \<and>
   wq (snd (set_wake_boost sscanf_u ''12abc'' example_sys)) = [BOOST_WORK] \<and>
   fst (set_wake_boost sscanf_u '' 42'' example_sys) = Inr () \<and>
   wake_boost_time (snd (set_wake_boost sscanf_u '' 42'' example_sys)) = 42"
  by (simp add: set_wake_boost_def conv_examples queue_work_fields example_sys_simps
      is_digit_def)

text \<open>
  C7. On the early unblank event the framebuffer notifier sets the stored duration to
  \<^verbatim>\<open>FB_BOOST_MS\<close>, that is 2000, whatever it was before, and submits the boost
  work with \<^verbatim>\<open>queue_work\<close>, so that the boost work is on the queue. Nothing
  else changes.
\<close>

theorem fb_unblank_arms_boost:
  "(case fb_notifier_callback FB_EARLY_EVENT_BLANK FB_BLANK_UNBLANK w of
      (ret, w') \<Rightarrow>
        ret = NOTIFY_OK \<and>
        wake_boost_time w' = FB_BOOST_MS \<and> unat (wake_boost_time w') = 2000 \<and>
        calls w' = calls w @ [QUEUE_WORK BOOST_WORK] \<and>
        BOOST_WORK \<in> set (wq w') \<and>
        wq w' = (if BOOST_WORK \<in> set (wq w) then wq w else wq w @ [BOOST_WORK]) \<and>
        state w' = state w \<and> unboost_timer w' = unboost_timer w \<and>
        jiffies w' = jiffies w \<and> cur_policy w' = cur_policy w)"
  by (simp add: fb_notifier_callback_def queue_work_fields FB_BOOST_MS_def)

text \<open>
  C8. On an early blank event whose blank code is not the unblank code, the framebuffer
  notifier asks the workqueue to cancel the unboost work. If the unboost work was
  pending, its timer is disarmed, it is taken off the queue and it is submitted again
  with delay 0, which puts it at the end of the queue; the resubmission is made in this
  case only. If it was not pending, nothing but the log of calls changes: the boost
  state, the stored duration, the queue and the timer are as before.
\<close>

theorem fb_blank_releases:
  "blank \<noteq> FB_BLANK_UNBLANK \<Longrightarrow>
   (case fb_notifier_callback FB_EARLY_EVENT_BLANK blank w of
      (ret, w') \<Rightarrow>
        ret = NOTIFY_OK \<and>
        (QUEUE_DELAYED_WORK 0 \<in> set (drop (length (calls w)) (calls w'))
           \<longleftrightarrow> delayed_work_pending w) \<and>
        (if delayed_work_pending w
         then w' = w\<lparr>unboost_timer := None,
                     wq := removeAll UNBOOST_WORK (wq w) @ [UNBOOST_WORK],
                     calls := calls w @ [CANCEL_DELAYED_WORK_SYNC, QUEUE_DELAYED_WORK 0]\<rparr>
         else w' = w\<lparr>calls := calls w @ [CANCEL_DELAYED_WORK_SYNC]\<rparr>))"
  by (simp add: fb_notifier_callback_def cancel_delayed_work_sync_def queue_delayed_work_def
      delayed_work_pending_def Let_def)

text \<open>
  C8 at the blank code \<^verbatim>\<open>FB_BLANK_POWERDOWN\<close>: with the timer of the unboost
  work armed for 2000, the timer is disarmed and the unboost work is on the queue; with
  nothing pending, the state, the duration, the queue and the timer stay.
\<close>

theorem fb_blank_releases_witness:
  "FB_BLANK_POWERDOWN \<noteq> FB_BLANK_UNBLANK \<and>
   delayed_work_pending (example_sys\<lparr>state := BOOST, unboost_timer := Some 2000\<rparr>) \<and>
   unboost_timer (snd (fb_notifier_callback FB_EARLY_EVENT_BLANK FB_BLANK_POWERDOWN
      (example_sys\<lparr>state := BOOST, unboost_timer := Some 2000\<rparr>))) = None \<and>
   wq (snd (fb_notifier_callback FB_EARLY_EVENT_BLANK FB_BLANK_POWERDOWN
      (example_sys\<lparr>state := BOOST, unboost_timer := Some 2000\<rparr>))) = [UNBOOST_WORK] \<and>
   \<not> delayed_work_pending example_sys \<and>
   snd (fb_notifier_callback FB_EARLY_EVENT_BLANK FB_BLANK_POWERDOWN example_sys)
     = example_sys\<lparr>calls := [CANCEL_DELAYED_WORK_SYNC]\<rparr>"
  using
    fb_blank_releases [OF blank_distinct,
      of "example_sys\<lparr>state := BOOST, unboost_timer := Some 2000\<rparr>"]
    fb_blank_releases [OF blank_distinct, of example_sys]
  by (simp add: blank_distinct delayed_work_pending_def example_sys_simps split: prod.splits)

section \<open>The work functions\<close>

lemma cpufreq_update_policy_frame:
  "wake_boost_time (cpufreq_update_policy cpu s) = wake_boost_time s"
  "wq (cpufreq_update_policy cpu s) = wq s"
  "unboost_timer (cpufreq_update_policy cpu s) = unboost_timer s"
  "jiffies (cpufreq_update_policy cpu s) = jiffies s"
  "online (cpufreq_update_policy cpu s) = online s"
  "user_policy (cpufreq_update_policy cpu s) = user_policy s"
  "calls (cpufreq_update_policy cpu s) = calls s @ [CPUFREQ_UPDATE_POLICY cpu]"
  by (cases "state s"; simp add: cpufreq_update_policy_def do_cpu_boost_def Let_def
      split: option.splits)+

lemma cpufreq_update_policy_state:
  "state (cpufreq_update_policy cpu s) =
     (if state s = UNBOOST \<and> user_policy s cpu \<noteq> None then NO_BOOST else state s)"
  by (cases "state s"; simp add: cpufreq_update_policy_def do_cpu_boost_def Let_def
      split: option.splits)

lemma cpufreq_update_policy_cur:
  "cur_policy (cpufreq_update_policy cpu s) =
     (case user_policy s cpu of
        None \<Rightarrow> cur_policy s
      | Some p \<Rightarrow> (cur_policy s)(cpu \<mapsto> fst (snd (do_cpu_boost CPUFREQ_ADJUST p s))))"
  by (cases "state s"; simp add: cpufreq_update_policy_def do_cpu_boost_def Let_def
      split: option.splits)

lemma fold_update_frame:
  "wake_boost_time (fold cpufreq_update_policy cpus s) = wake_boost_time s"
  "wq (fold cpufreq_update_policy cpus s) = wq s"
  "unboost_timer (fold cpufreq_update_policy cpus s) = unboost_timer s"
  "jiffies (fold cpufreq_update_policy cpus s) = jiffies s"
  "online (fold cpufreq_update_policy cpus s) = online s"
  "user_policy (fold cpufreq_update_policy cpus s) = user_policy s"
  "calls (fold cpufreq_update_policy cpus s) = calls s @ map CPUFREQ_UPDATE_POLICY cpus"
  by (induction cpus arbitrary: s; simp add: cpufreq_update_policy_frame)+

lemma fold_update_state:
  "state (fold cpufreq_update_policy cpus s) =
     (if state s = UNBOOST \<and> (\<exists>cpu\<in>set cpus. user_policy s cpu \<noteq> None)
      then NO_BOOST else state s)"
proof (induction cpus arbitrary: s)
  case Nil
  then show ?case by simp
next
  case (Cons c cpus)
  show ?case
  proof (cases "state s = UNBOOST \<and> user_policy s c \<noteq> None")
    case True
    then have "state (cpufreq_update_policy c s) = NO_BOOST"
      by (simp add: cpufreq_update_policy_state)
    with True show ?thesis
      by (simp add: Cons.IH)
  next
    case False
    then have "state (cpufreq_update_policy c s) = state s"
      by (simp add: cpufreq_update_policy_state)
    with False show ?thesis
      by (cases "state s = UNBOOST") (simp_all add: Cons.IH cpufreq_update_policy_frame)
  qed
qed

lemma fold_update_cur_boost:
  "state s = BOOST \<Longrightarrow>
   cur_policy (fold cpufreq_update_policy cpus s) cpu =
     (if cpu \<in> set cpus
      then (case user_policy s cpu of
              None \<Rightarrow> cur_policy s cpu
            | Some p \<Rightarrow>
                Some (p\<lparr>min_policy := max_freq (cpuinfo p),
                        max_policy := (if max_policy p < max_freq (cpuinfo p)
                                       then max_freq (cpuinfo p) else max_policy p)\<rparr>))
      else cur_policy s cpu)"
proof (induction cpus arbitrary: s)
  case Nil
  then show ?case by simp
next
  case (Cons c cpus)
  let ?s = "cpufreq_update_policy c s"
  have st: "state ?s = BOOST"
    using Cons.prems by (simp add: cpufreq_update_policy_state)
  have cur: "cur_policy ?s =
     (case user_policy s c of
        None \<Rightarrow> cur_policy s
      | Some p \<Rightarrow>
          (cur_policy s)(c \<mapsto>
             p\<lparr>min_policy := max_freq (cpuinfo p),
               max_policy := (if max_policy p < max_freq (cpuinfo p)
                              then max_freq (cpuinfo p) else max_policy p)\<rparr>))"
    using Cons.prems
    by (simp add: cpufreq_update_policy_cur do_cpu_boost_def Let_def
        split: option.splits)
  show ?case
    using Cons.IH [OF st]
    by (simp add: cur cpufreq_update_policy_frame split: option.splits)
qed

lemma fold_update_cur_idle:
  "state s = NO_BOOST \<Longrightarrow>
   cur_policy (fold cpufreq_update_policy cpus s) cpu =
     (if cpu \<in> set cpus
      then (case user_policy s cpu of None \<Rightarrow> cur_policy s cpu | Some p \<Rightarrow> Some p)
      else cur_policy s cpu)"
proof (induction cpus arbitrary: s)
  case Nil
  then show ?case by simp
next
  case (Cons c cpus)
  let ?s = "cpufreq_update_policy c s"
  have st: "state ?s = NO_BOOST"
    using Cons.prems by (simp add: cpufreq_update_policy_state)
  have cur: "cur_policy ?s =
     (case user_policy s c of None \<Rightarrow> cur_policy s | Some p \<Rightarrow> (cur_policy s)(c \<mapsto> p))"
    using Cons.prems
    by (simp add: cpufreq_update_policy_cur do_cpu_boost_def split: option.splits)
  show ?case
    using Cons.IH [OF st]
    by (simp add: cur cpufreq_update_policy_frame split: option.splits)
qed

lemma queue_delayed_work_fields:
  "state (queue_delayed_work d s) = state s"
  "wake_boost_time (queue_delayed_work d s) = wake_boost_time s"
  "jiffies (queue_delayed_work d s) = jiffies s"
  "online (queue_delayed_work d s) = online s"
  "user_policy (queue_delayed_work d s) = user_policy s"
  "cur_policy (queue_delayed_work d s) = cur_policy s"
  "calls (queue_delayed_work d s) = calls s @ [QUEUE_DELAYED_WORK d]"
  "wq (queue_delayed_work d s) =
     (if \<not> delayed_work_pending s \<and> d = 0 then wq s @ [UNBOOST_WORK] else wq s)"
  "unboost_timer (queue_delayed_work d s) =
     (if \<not> delayed_work_pending s \<and> d \<noteq> 0 then Some (jiffies s + d) else unboost_timer s)"
  by (simp_all add: queue_delayed_work_def delayed_work_pending_def Let_def)

lemma update_online_fields:
  "wake_boost_time (update_online_cpu_policy s) = wake_boost_time s"
  "wq (update_online_cpu_policy s) = wq s"
  "unboost_timer (update_online_cpu_policy s) = unboost_timer s"
  "jiffies (update_online_cpu_policy s) = jiffies s"
  "online (update_online_cpu_policy s) = online s"
  "user_policy (update_online_cpu_policy s) = user_policy s"
  "calls (update_online_cpu_policy s) = calls s @ map CPUFREQ_UPDATE_POLICY (online s)"
  "delayed_work_pending (update_online_cpu_policy s) = delayed_work_pending s"
  by (simp_all add: update_online_cpu_policy_def fold_update_frame delayed_work_pending_def)

text \<open>
  C2. The boost work function leaves the state \<^verbatim>\<open>BOOST\<close>; the calls it makes
  are one policy update per online CPU, in the order of the online CPUs, and then one
  \<^verbatim>\<open>queue_delayed_work\<close> whose delay is the stored duration as it is when the
  work function runs. Every online CPU that has a policy was evaluated with the state
  already \<^verbatim>\<open>BOOST\<close>: its bounds are the proposed ones with the minimum at the
  hardware maximum and the maximum raised to it if it was below. If the unboost work was
  not pending, its timer is armed that delay after the present (or, for a delay of 0, the
  work is queued at once); if it was pending, the timer and the queue are as before.
\<close>

theorem wake_boost_steps:
  "state (wake_boost w) = BOOST \<and>
   calls (wake_boost w) =
     calls w @ map CPUFREQ_UPDATE_POLICY (online w)
       @ [QUEUE_DELAYED_WORK (msecs_to_jiffies (wake_boost_time w))] \<and>
   (\<forall>cpu\<in>set (online w). \<forall>p. user_policy w cpu = Some p \<longrightarrow>
      cur_policy (wake_boost w) cpu =
        Some (p\<lparr>min_policy := max_freq (cpuinfo p),
                max_policy := (if max_policy p < max_freq (cpuinfo p)
                               then max_freq (cpuinfo p) else max_policy p)\<rparr>)) \<and>
   wake_boost_time (wake_boost w) = wake_boost_time w \<and>
   (if delayed_work_pending w
    then unboost_timer (wake_boost w) = unboost_timer w \<and> wq (wake_boost w) = wq w
    else if msecs_to_jiffies (wake_boost_time w) = 0
    then unboost_timer (wake_boost w) = None \<and> wq (wake_boost w) = wq w @ [UNBOOST_WORK]
    else unboost_timer (wake_boost w) = Some (jiffies w + msecs_to_jiffies (wake_boost_time w))
      \<and> wq (wake_boost w) = wq w)"
proof -
  let ?b = "w\<lparr>state := BOOST\<rparr>"
  let ?u = "update_online_cpu_policy ?b"
  have wb: "wake_boost w = queue_delayed_work (msecs_to_jiffies (wake_boost_time w)) ?u"
    by (simp add: wake_boost_def Let_def update_online_fields)
  have st: "state ?u = BOOST"
    by (simp add: update_online_cpu_policy_def fold_update_state)
  have cur: "cur_policy ?u cpu =
      Some (p\<lparr>min_policy := max_freq (cpuinfo p),
              max_policy := (if max_policy p < max_freq (cpuinfo p)
                             then max_freq (cpuinfo p) else max_policy p)\<rparr>)"
    if "cpu \<in> set (online w)" "user_policy w cpu = Some p" for cpu p
    using that fold_update_cur_boost [of ?b "online w" cpu]
    by (simp add: update_online_cpu_policy_def)
  have tm: "unboost_timer ?u = unboost_timer w" "wq ?u = wq w" "jiffies ?u = jiffies w"
    by (simp_all add: update_online_fields)
  show ?thesis
    unfolding wb
    by (simp add: queue_delayed_work_fields st cur tm update_online_fields
        delayed_work_pending_def)
qed

text \<open>
  C2 with 5000 stored and nothing pending: both CPUs are updated, the delay asked for is
  5000, CPU 0 ends with both bounds at 2000000, and the timer is armed for 5000.
\<close>

theorem wake_boost_steps_witness:
  "0 \<in> set (online (example_sys\<lparr>wake_boost_time := 5000\<rparr>)) \<and>
   user_policy (example_sys\<lparr>wake_boost_time := 5000\<rparr>) 0 = Some example_policy \<and>
   \<not> delayed_work_pending (example_sys\<lparr>wake_boost_time := 5000\<rparr>) \<and>
   state (wake_boost (example_sys\<lparr>wake_boost_time := 5000\<rparr>)) = BOOST \<and>
   calls (wake_boost (example_sys\<lparr>wake_boost_time := 5000\<rparr>)) =
     [CPUFREQ_UPDATE_POLICY 0, CPUFREQ_UPDATE_POLICY 1, QUEUE_DELAYED_WORK 5000] \<and>
   cur_policy (wake_boost (example_sys\<lparr>wake_boost_time := 5000\<rparr>)) 0 =
     Some (example_policy\<lparr>min_policy := 2000000, max_policy := 2000000\<rparr>) \<and>
   unboost_timer (wake_boost (example_sys\<lparr>wake_boost_time := 5000\<rparr>)) = Some 5000"
  using wake_boost_steps [of "example_sys\<lparr>wake_boost_time := 5000\<rparr>"]
  by (simp add: example_sys_simps delayed_work_pending_def msecs_to_jiffies_def
      example_policy_def)

text \<open>
  C6, as amended. The unboost work function writes \<^verbatim>\<open>UNBOOST\<close> and then
  makes one policy update per online CPU, and nothing else: it never writes
  \<^verbatim>\<open>NO_BOOST\<close> itself, so the state it leaves is \<^verbatim>\<open>UNBOOST\<close> when
  no online CPU has a policy to evaluate. The step from \<^verbatim>\<open>UNBOOST\<close> to
  \<^verbatim>\<open>NO_BOOST\<close> is made by the notifier called with
  \<^verbatim>\<open>CPUFREQ_ADJUST\<close>, which sets the minimum to the hardware minimum and then
  the state to \<^verbatim>\<open>NO_BOOST\<close>; called with any other action in the state
  \<^verbatim>\<open>UNBOOST\<close> the notifier changes nothing. The first policy update of the
  work function is such a call: the first online CPU, if it has a policy, gets the
  hardware minimum, and the state is \<^verbatim>\<open>NO_BOOST\<close> when the work function
  returns.
\<close>

theorem wake_unboost_releases:
  "calls (wake_unboost w) = calls w @ map CPUFREQ_UPDATE_POLICY (online w) \<and>
   state (wake_unboost w) =
     (if \<exists>cpu\<in>set (online w). user_policy w cpu \<noteq> None then NO_BOOST else UNBOOST) \<and>
   (\<forall>cpu rest p. online w = cpu # rest \<and> cpu \<notin> set rest \<and> user_policy w cpu = Some p \<longrightarrow>
      cur_policy (wake_unboost w) cpu = Some (p\<lparr>min_policy := min_freq (cpuinfo p)\<rparr>)) \<and>
   do_cpu_boost CPUFREQ_ADJUST policy (w\<lparr>state := UNBOOST\<rparr>) =
     (NOTIFY_OK, policy\<lparr>min_policy := min_freq (cpuinfo policy)\<rparr>, w\<lparr>state := NO_BOOST\<rparr>) \<and>
   (\<forall>action. action \<noteq> CPUFREQ_ADJUST \<longrightarrow>
      do_cpu_boost action policy (w\<lparr>state := UNBOOST\<rparr>) =
        (NOTIFY_OK, policy, w\<lparr>state := UNBOOST\<rparr>)) \<and>
   wq (wake_unboost w) = wq w \<and> unboost_timer (wake_unboost w) = unboost_timer w \<and>
   wake_boost_time (wake_unboost w) = wake_boost_time w"
proof -
  let ?r = "w\<lparr>state := UNBOOST\<rparr>"
  have head: "cur_policy (wake_unboost w) cpu = Some (p\<lparr>min_policy := min_freq (cpuinfo p)\<rparr>)"
    if on: "online w = cpu # rest" and fresh: "cpu \<notin> set rest"
      and pol: "user_policy w cpu = Some p" for cpu rest p
  proof -
    let ?s = "cpufreq_update_policy cpu ?r"
    have st: "state ?s = NO_BOOST"
      using pol by (simp add: cpufreq_update_policy_state)
    have cur: "cur_policy ?s cpu = Some (p\<lparr>min_policy := min_freq (cpuinfo p)\<rparr>)"
      using pol by (simp add: cpufreq_update_policy_cur do_cpu_boost_def)
    have "cur_policy (fold cpufreq_update_policy rest ?s) cpu = cur_policy ?s cpu"
      using fold_update_cur_idle [OF st, of rest cpu] fresh by simp
    with cur on show ?thesis
      by (simp add: wake_unboost_def update_online_cpu_policy_def)
  qed
  have "calls (wake_unboost w) = calls w @ map CPUFREQ_UPDATE_POLICY (online w)"
    by (simp add: wake_unboost_def update_online_fields)
  moreover have "state (wake_unboost w) =
     (if \<exists>cpu\<in>set (online w). user_policy w cpu \<noteq> None then NO_BOOST else UNBOOST)"
    by (simp add: wake_unboost_def update_online_cpu_policy_def fold_update_state)
  moreover have "do_cpu_boost CPUFREQ_ADJUST policy ?r =
     (NOTIFY_OK, policy\<lparr>min_policy := min_freq (cpuinfo policy)\<rparr>, w\<lparr>state := NO_BOOST\<rparr>)"
    by (simp add: do_cpu_boost_def)
  moreover have "do_cpu_boost action policy ?r = (NOTIFY_OK, policy, ?r)"
    if "action \<noteq> CPUFREQ_ADJUST" for action
    using that by (simp add: do_cpu_boost_def)
  moreover have "wq (wake_unboost w) = wq w" "unboost_timer (wake_unboost w) = unboost_timer w"
    "wake_boost_time (wake_unboost w) = wake_boost_time w"
    by (simp_all add: wake_unboost_def update_online_fields)
  ultimately show ?thesis
    using head by blast
qed

text \<open>
  The amended C6 on the example machine, and on a machine with no CPU to evaluate,
  where the state stays \<^verbatim>\<open>UNBOOST\<close>.
\<close>

theorem wake_unboost_releases_witness:
  "online example_sys = [0, 1] \<and> user_policy example_sys 0 = Some example_policy \<and>
   CPUFREQ_NOTIFY \<noteq> CPUFREQ_ADJUST \<and>
   calls (wake_unboost example_sys) = [CPUFREQ_UPDATE_POLICY 0, CPUFREQ_UPDATE_POLICY 1] \<and>
   state (wake_unboost example_sys) = NO_BOOST \<and>
   cur_policy (wake_unboost example_sys) 0 = Some example_policy \<and>
   state (wake_unboost (example_sys\<lparr>online := []\<rparr>)) = UNBOOST \<and>
   do_cpu_boost CPUFREQ_NOTIFY example_policy (example_sys\<lparr>state := UNBOOST\<rparr>) =
     (NOTIFY_OK, example_policy, example_sys\<lparr>state := UNBOOST\<rparr>)"
  using wake_unboost_releases [of example_sys example_policy]
    wake_unboost_releases [of "example_sys\<lparr>online := []\<rparr>" example_policy]
  by (simp add: example_sys_simps actions_distinct example_policy_def)

text \<open>
  C6 as stated fails: after the unboost work function has written
  \<^verbatim>\<open>UNBOOST\<close>, a call of the notifier with \<^verbatim>\<open>CPUFREQ_NOTIFY\<close> on a
  policy whose minimum is still 2000000 neither sets the minimum to the hardware
  minimum 300000 nor moves the state to \<^verbatim>\<open>NO_BOOST\<close>.
\<close>

theorem wake_unboost_counterexample:
  "state (example_sys\<lparr>state := UNBOOST\<rparr>) = UNBOOST \<and>
   min_freq (cpuinfo (example_policy\<lparr>min_policy := 2000000, max_policy := 2000000\<rparr>)) = 300000 \<and>
   min_policy (fst (snd (do_cpu_boost CPUFREQ_NOTIFY
       (example_policy\<lparr>min_policy := 2000000, max_policy := 2000000\<rparr>)
       (example_sys\<lparr>state := UNBOOST\<rparr>)))) = 2000000 \<and>
   state (snd (snd (do_cpu_boost CPUFREQ_NOTIFY
       (example_policy\<lparr>min_policy := 2000000, max_policy := 2000000\<rparr>)
       (example_sys\<lparr>state := UNBOOST\<rparr>)))) = UNBOOST"
  by (simp add: do_cpu_boost_def example_policy_def actions_distinct)

section \<open>Runs: the display goes dark early, the duration is changed during a boost\<close>

lemma update_online_state:
  "state (update_online_cpu_policy s) =
     (if state s = UNBOOST \<and> (\<exists>cpu\<in>set (online s). user_policy s cpu \<noteq> None)
      then NO_BOOST else state s)"
  by (simp add: update_online_cpu_policy_def fold_update_state)

lemma wake_boost_fields:
  "state (wake_boost w) = BOOST"
  "wake_boost_time (wake_boost w) = wake_boost_time w"
  "jiffies (wake_boost w) = jiffies w"
  "online (wake_boost w) = online w"
  "user_policy (wake_boost w) = user_policy w"
  "calls (wake_boost w) =
     calls w @ map CPUFREQ_UPDATE_POLICY (online w)
       @ [QUEUE_DELAYED_WORK (msecs_to_jiffies (wake_boost_time w))]"
  "wq (wake_boost w) =
     (if unboost_timer w = None \<and> UNBOOST_WORK \<notin> set (wq w)
         \<and> msecs_to_jiffies (wake_boost_time w) = 0
      then wq w @ [UNBOOST_WORK] else wq w)"
  "unboost_timer (wake_boost w) =
     (if unboost_timer w = None \<and> UNBOOST_WORK \<notin> set (wq w)
         \<and> msecs_to_jiffies (wake_boost_time w) \<noteq> 0
      then Some (jiffies w + msecs_to_jiffies (wake_boost_time w)) else unboost_timer w)"
  by (simp_all add: wake_boost_def Let_def queue_delayed_work_fields update_online_fields
      update_online_state delayed_work_pending_def)

lemma wake_unboost_fields:
  "state (wake_unboost w) =
     (if \<exists>cpu\<in>set (online w). user_policy w cpu \<noteq> None then NO_BOOST else UNBOOST)"
  "wake_boost_time (wake_unboost w) = wake_boost_time w"
  "jiffies (wake_unboost w) = jiffies w"
  "online (wake_unboost w) = online w"
  "user_policy (wake_unboost w) = user_policy w"
  "calls (wake_unboost w) = calls w @ map CPUFREQ_UPDATE_POLICY (online w)"
  "wq (wake_unboost w) = wq w"
  "unboost_timer (wake_unboost w) = unboost_timer w"
  by (simp_all add: wake_unboost_def update_online_fields update_online_state)

lemmas event_defs = run_def fb_notifier_callback_def set_wake_boost_def worker_def elapse_def
  queue_work_def queue_delayed_work_def cancel_delayed_work_sync_def delayed_work_pending_def
  Let_def

text \<open>
  Every event keeps the queue and the timer well-formed, and the initial state has them
  so: every state reached from the initial one by a sequence of events has.
\<close>

lemma step_wq_ok:
  assumes "wq_ok s"
  shows "wq_ok (step ev s)"
proof (cases ev)
  case (FB_EVENT action blank)
  with assms show ?thesis
    by (auto simp add: wq_ok_def fb_notifier_callback_def queue_work_def queue_delayed_work_def
        cancel_delayed_work_sync_def delayed_work_pending_def Let_def distinct_removeAll
        split: option.splits)
next
  case (PARAM_WRITE buf)
  with assms show ?thesis
    by (auto simp add: wq_ok_def set_wake_boost_def queue_work_def Let_def
        split: option.splits)
next
  case WORKER
  show ?thesis
  proof (cases "wq s")
    case Nil
    with assms WORKER show ?thesis
      by (simp add: worker_def)
  next
    case (Cons item rest)
    with assms WORKER show ?thesis
      by (cases item)
        (auto simp add: wq_ok_def worker_def wake_boost_fields wake_unboost_fields
          split: option.splits if_splits)
  qed
next
  case (ELAPSE n)
  with assms show ?thesis
    by (auto simp add: wq_ok_def elapse_def Let_def split: option.splits)
qed

lemma run_wq_ok: "wq_ok s \<Longrightarrow> wq_ok (run evs s)"
  unfolding run_def
  by (induction evs arbitrary: s) (simp_all add: step_wq_ok)

lemma init_wq_ok: "wq_ok (cpu_wake_boost_init cpus pols)"
  by (simp add: wq_ok_def cpu_wake_boost_init_def)

lemma only_boost_work:
  "distinct ws \<Longrightarrow> UNBOOST_WORK \<notin> set ws \<Longrightarrow> ws = [] \<or> ws = [BOOST_WORK]"
proof (cases ws)
  case Nil
  then show ?thesis by simp
next
  case (Cons x xs)
  assume d: "distinct ws" and u: "UNBOOST_WORK \<notin> set ws"
  from Cons u have x: "x = BOOST_WORK"
    by (cases x) simp_all
  have "xs = []"
  proof (cases xs)
    case Nil
    then show ?thesis .
  next
    case (Cons y ys)
    with \<open>ws = x # xs\<close> d u x show ?thesis
      by (cases y) simp_all
  qed
  with Cons x show ?thesis by simp
qed

text \<open>
  C5, as amended. Take any sequence of events from the initial state, and let an early
  blank event other than unblank follow. If the unboost work is pending then (its timer
  is armed, or it is on the queue), the event leaves the boost state as it is, disarms
  the timer and puts the unboost work at the end of the queue, behind a boost work that
  may be queued; once the worker has run the work items queued at that point, the state
  is not \<^verbatim>\<open>BOOST\<close>, no timer is armed and the queue is empty, all without the
  clock advancing. If the unboost work is not pending, the event changes nothing but the
  log of calls: the boost state, the stored duration, the queue and the timer stay.
\<close>

theorem early_release:
  assumes reach: "s = run evs (cpu_wake_boost_init cpus pols)"
    and blank: "blank \<noteq> FB_BLANK_UNBLANK"
  shows
    "(let signalled = run [FB_EVENT FB_EARLY_EVENT_BLANK blank] s;
          released = run (replicate (length (wq signalled)) WORKER) signalled
      in if delayed_work_pending s
         then state signalled = state s \<and> unboost_timer signalled = None \<and>
              wq signalled = removeAll UNBOOST_WORK (wq s) @ [UNBOOST_WORK] \<and>
              state released \<noteq> BOOST \<and> unboost_timer released = None \<and>
              wq released = [] \<and> jiffies released = jiffies s
         else signalled = s\<lparr>calls := calls s @ [CANCEL_DELAYED_WORK_SYNC]\<rparr>)"
proof (cases "delayed_work_pending s")
  case False
  with blank show ?thesis
    by (simp add: event_defs)
next
  case True
  have ok: "wq_ok s"
    unfolding reach by (rule run_wq_ok) (rule init_wq_ok)
  then have "distinct (removeAll UNBOOST_WORK (wq s))"
    by (simp add: wq_ok_def distinct_removeAll)
  then have "removeAll UNBOOST_WORK (wq s) = [] \<or> removeAll UNBOOST_WORK (wq s) = [BOOST_WORK]"
    by (rule only_boost_work) simp
  then show ?thesis
  proof
    assume "removeAll UNBOOST_WORK (wq s) = []"
    with True blank show ?thesis
      by (simp add: event_defs wake_unboost_fields)
  next
    assume "removeAll UNBOOST_WORK (wq s) = [BOOST_WORK]"
    with True blank show ?thesis
      by (simp add: event_defs wake_boost_fields wake_unboost_fields)
  qed
qed

text \<open>
  The amended C5 on the example machine. Unblank, the worker runs the boost, 500
  time-units pass, blank with \<^verbatim>\<open>FB_BLANK_POWERDOWN\<close>, the worker runs the
  unboost: the state is not \<^verbatim>\<open>BOOST\<close>. Unblank and at once blank: the unboost
  work is not pending, and the boost work stays queued with no timer armed.
\<close>

theorem early_release_witness:
  "delayed_work_pending
     (run [FB_EVENT FB_EARLY_EVENT_BLANK FB_BLANK_UNBLANK, WORKER, ELAPSE 500] example_sys) \<and>
   FB_BLANK_POWERDOWN \<noteq> FB_BLANK_UNBLANK \<and>
   state (run [FB_EVENT FB_EARLY_EVENT_BLANK FB_BLANK_UNBLANK, WORKER, ELAPSE 500]
            example_sys) = BOOST \<and>
   wq (run [FB_EVENT FB_EARLY_EVENT_BLANK FB_BLANK_POWERDOWN]
     (run [FB_EVENT FB_EARLY_EVENT_BLANK FB_BLANK_UNBLANK, WORKER, ELAPSE 500]
        example_sys)) = [UNBOOST_WORK] \<and>
   state (run [WORKER] (run [FB_EVENT FB_EARLY_EVENT_BLANK FB_BLANK_POWERDOWN]
     (run [FB_EVENT FB_EARLY_EVENT_BLANK FB_BLANK_UNBLANK, WORKER, ELAPSE 500]
        example_sys))) \<noteq> BOOST \<and>
   \<not> delayed_work_pending (run [FB_EVENT FB_EARLY_EVENT_BLANK FB_BLANK_UNBLANK] example_sys) \<and>
   wq (run [FB_EVENT FB_EARLY_EVENT_BLANK FB_BLANK_POWERDOWN]
     (run [FB_EVENT FB_EARLY_EVENT_BLANK FB_BLANK_UNBLANK] example_sys)) = [BOOST_WORK] \<and>
   unboost_timer (run [FB_EVENT FB_EARLY_EVENT_BLANK FB_BLANK_POWERDOWN]
     (run [FB_EVENT FB_EARLY_EVENT_BLANK FB_BLANK_UNBLANK] example_sys)) = None"
proof -
  let ?init = "cpu_wake_boost_init [0, 1] [0 \<mapsto> example_policy, 1 \<mapsto> example_policy]"
  let ?s = "run [FB_EVENT FB_EARLY_EVENT_BLANK FB_BLANK_UNBLANK, WORKER, ELAPSE 500] example_sys"
  let ?u = "run [FB_EVENT FB_EARLY_EVENT_BLANK FB_BLANK_UNBLANK] example_sys"
  have s: "unboost_timer ?s = Some 2000" "wq ?s = []" "state ?s = BOOST"
    by (simp_all add: event_defs wake_boost_fields FB_BOOST_MS_def msecs_to_jiffies_def
        example_sys_simps)
  then have p: "delayed_work_pending ?s"
    by (simp add: delayed_work_pending_def)
  have u: "unboost_timer ?u = None" "wq ?u = [BOOST_WORK]"
    by (simp_all add: event_defs example_sys_simps)
  then have np: "\<not> delayed_work_pending ?u"
    by (simp add: delayed_work_pending_def)
  have d: "?s = run [FB_EVENT FB_EARLY_EVENT_BLANK FB_BLANK_UNBLANK, WORKER, ELAPSE 500] ?init"
    and e: "?u = run [FB_EVENT FB_EARLY_EVENT_BLANK FB_BLANK_UNBLANK] ?init"
    by (simp_all add: example_sys_def)
  let ?t = "run [FB_EVENT FB_EARLY_EVENT_BLANK FB_BLANK_POWERDOWN] ?s"
  note rel = early_release [OF d blank_distinct, unfolded Let_def if_P [OF p]]
  from rel have q: "wq ?t = [UNBOOST_WORK]"
    by (simp add: s)
  from rel have "state (run (replicate (length (wq ?t)) WORKER) ?t) \<noteq> BOOST"
    by (elim conjE)
  then have r: "state (run [WORKER] ?t) \<noteq> BOOST"
    by (simp add: q)
  note idle = early_release [OF e blank_distinct, unfolded Let_def if_not_P [OF np]]
  have i: "wq (run [FB_EVENT FB_EARLY_EVENT_BLANK FB_BLANK_POWERDOWN] ?u) = [BOOST_WORK]"
    "unboost_timer (run [FB_EVENT FB_EARLY_EVENT_BLANK FB_BLANK_POWERDOWN] ?u) = None"
    by (simp_all add: idle u)
  from q r s p np i blank_distinct show ?thesis
    by simp
qed

text \<open>
  C5 as stated fails: when the blank event arrives after the unblank event but before
  the worker has run the boost work, the unboost work is not pending and the event does
  nothing; the boost work then runs, and 1999 time-units after the blank event the state
  is still \<^verbatim>\<open>BOOST\<close>, the minimum of CPU 0 is the hardware maximum, and the
  unboost is due at 2000.
\<close>

theorem early_release_counterexample:
  "state (run [FB_EVENT FB_EARLY_EVENT_BLANK FB_BLANK_UNBLANK,
               FB_EVENT FB_EARLY_EVENT_BLANK FB_BLANK_POWERDOWN,
               WORKER] example_sys) = BOOST \<and>
   unboost_timer (run [FB_EVENT FB_EARLY_EVENT_BLANK FB_BLANK_UNBLANK,
                       FB_EVENT FB_EARLY_EVENT_BLANK FB_BLANK_POWERDOWN,
                       WORKER] example_sys) = Some 2000 \<and>
   state (run [FB_EVENT FB_EARLY_EVENT_BLANK FB_BLANK_UNBLANK,
               FB_EVENT FB_EARLY_EVENT_BLANK FB_BLANK_POWERDOWN,
               WORKER, ELAPSE 1999] example_sys) = BOOST \<and>
   min_policy (the (cur_policy (run [FB_EVENT FB_EARLY_EVENT_BLANK FB_BLANK_UNBLANK,
               FB_EVENT FB_EARLY_EVENT_BLANK FB_BLANK_POWERDOWN,
               WORKER, ELAPSE 1999] example_sys) 0)) = 2000000"
  by (simp add: event_defs wake_boost_def update_online_cpu_policy_def
      cpufreq_update_policy_def do_cpu_boost_def msecs_to_jiffies_def example_sys_def
      cpu_wake_boost_init_def example_policy_def FB_BOOST_MS_def FB_EARLY_EVENT_BLANK_def
      FB_BLANK_UNBLANK_def FB_BLANK_POWERDOWN_def CPUFREQ_ADJUST_def)

text \<open>
  C3, as amended. Take any sequence of events from the initial state after which the
  state is \<^verbatim>\<open>BOOST\<close> and the timer of the unboost work is armed for \<open>e\<close>. A
  write of a duration that parses stores it and queues the boost work; when the worker
  runs it, the state is \<^verbatim>\<open>BOOST\<close> and the work function asks for an unboost
  after the new duration, but the unboost work is pending, so the request changes
  nothing: the timer is still armed for \<open>e\<close>. It does not fire before \<open>e\<close>, it
  fires at \<open>e\<close>, and once the worker has run the unboost work the state is not
  \<^verbatim>\<open>BOOST\<close> and nothing is armed or queued: the boost started by the write has
  no expiry of its own.
\<close>

theorem set_while_boosted:
  assumes reach: "s = run evs (cpu_wake_boost_init cpus pols)"
    and boosted: "state s = BOOST" "unboost_timer s = Some e"
    and parses: "sscanf_u buf = Some v"
  shows
    "(let armed = run [PARAM_WRITE buf, WORKER] s;
          expired = run [ELAPSE (e - jiffies s)] armed;
          released = run [WORKER] expired
      in state armed = BOOST \<and> wake_boost_time armed = v \<and>
         calls armed =
           calls s @ [QUEUE_WORK BOOST_WORK] @ map CPUFREQ_UPDATE_POLICY (online s)
             @ [QUEUE_DELAYED_WORK (msecs_to_jiffies v)] \<and>
         unboost_timer armed = Some e \<and> wq armed = [] \<and>
         (\<forall>n. jiffies s + n < e \<longrightarrow>
            state (run [ELAPSE n] armed) = BOOST \<and>
            unboost_timer (run [ELAPSE n] armed) = Some e \<and>
            wq (run [ELAPSE n] armed) = []) \<and>
         jiffies expired = e \<and> unboost_timer expired = None \<and>
         wq expired = [UNBOOST_WORK] \<and>
         state released \<noteq> BOOST \<and> unboost_timer released = None \<and> wq released = [])"
proof -
  have "wq_ok s"
    unfolding reach by (rule run_wq_ok) (rule init_wq_ok)
  with boosted(2) have ahead: "jiffies s < e"
    and "distinct (wq s)" "UNBOOST_WORK \<notin> set (wq s)"
    by (simp_all add: wq_ok_def)
  then have "wq s = [] \<or> wq s = [BOOST_WORK]"
    by (intro only_boost_work)
  then show ?thesis
  proof
    assume "wq s = []"
    with boosted ahead parses show ?thesis
      by (simp add: event_defs wake_boost_fields wake_unboost_fields)
  next
    assume "wq s = [BOOST_WORK]"
    with boosted ahead parses show ?thesis
      by (simp add: event_defs wake_boost_fields wake_unboost_fields)
  qed
qed

text \<open>
  The amended C3 on the example machine: unblank, the worker runs the boost, 500
  time-units pass, \<open>''5000''\<close> is written.
\<close>

theorem set_while_boosted_witness:
  "state (run [FB_EVENT FB_EARLY_EVENT_BLANK FB_BLANK_UNBLANK, WORKER, ELAPSE 500]
            example_sys) = BOOST \<and>
   unboost_timer (run [FB_EVENT FB_EARLY_EVENT_BLANK FB_BLANK_UNBLANK, WORKER, ELAPSE 500]
                    example_sys) = Some 2000 \<and>
   sscanf_u ''5000'' = Some 5000 \<and>
   wake_boost_time (run [PARAM_WRITE ''5000'', WORKER]
     (run [FB_EVENT FB_EARLY_EVENT_BLANK FB_BLANK_UNBLANK, WORKER, ELAPSE 500]
        example_sys)) = 5000 \<and>
   unboost_timer (run [PARAM_WRITE ''5000'', WORKER]
     (run [FB_EVENT FB_EARLY_EVENT_BLANK FB_BLANK_UNBLANK, WORKER, ELAPSE 500]
        example_sys)) = Some 2000 \<and>
   state (run [WORKER] (run [ELAPSE 1500] (run [PARAM_WRITE ''5000'', WORKER]
     (run [FB_EVENT FB_EARLY_EVENT_BLANK FB_BLANK_UNBLANK, WORKER, ELAPSE 500]
        example_sys)))) \<noteq> BOOST"
proof -
  let ?s = "run [FB_EVENT FB_EARLY_EVENT_BLANK FB_BLANK_UNBLANK, WORKER, ELAPSE 500] example_sys"
  have s: "state ?s = BOOST" "unboost_timer ?s = Some 2000" "jiffies ?s = 500"
    by (simp_all add: event_defs wake_boost_fields FB_BOOST_MS_def msecs_to_jiffies_def
        example_sys_simps)
  have d: "?s = run [FB_EVENT FB_EARLY_EVENT_BLANK FB_BLANK_UNBLANK, WORKER, ELAPSE 500]
      (cpu_wake_boost_init [0, 1] [0 \<mapsto> example_policy, 1 \<mapsto> example_policy])"
    by (simp add: example_sys_def)
  from set_while_boosted [OF d s(1) s(2) sscanf_u_examples(1), unfolded Let_def] s
  show ?thesis
    by (simp add: sscanf_u_examples)
qed

text \<open>
  C3 as stated fails on the scenario of the spec: unblank at time 0, the worker runs the
  boost (unboost due at 2000), at time 500 the duration 5000 is written and the worker
  runs the boost again. The timer still stands at 2000, not at 5500; at time 2000 the
  unboost runs, and the state is \<^verbatim>\<open>NO_BOOST\<close> with nothing armed or queued,
  1500 time-units after the write and not 5000.
\<close>

theorem set_while_boosted_counterexample:
  "jiffies (run [FB_EVENT FB_EARLY_EVENT_BLANK FB_BLANK_UNBLANK, WORKER, ELAPSE 500,
                 PARAM_WRITE ''5000'', WORKER] example_sys) = 500 \<and>
   wake_boost_time (run [FB_EVENT FB_EARLY_EVENT_BLANK FB_BLANK_UNBLANK, WORKER, ELAPSE 500,
                         PARAM_WRITE ''5000'', WORKER] example_sys) = 5000 \<and>
   state (run [FB_EVENT FB_EARLY_EVENT_BLANK FB_BLANK_UNBLANK, WORKER, ELAPSE 500,
               PARAM_WRITE ''5000'', WORKER] example_sys) = BOOST \<and>
   unboost_timer (run [FB_EVENT FB_EARLY_EVENT_BLANK FB_BLANK_UNBLANK, WORKER, ELAPSE 500,
                       PARAM_WRITE ''5000'', WORKER] example_sys) = Some 2000 \<and>
   jiffies (run [FB_EVENT FB_EARLY_EVENT_BLANK FB_BLANK_UNBLANK, WORKER, ELAPSE 500,
                 PARAM_WRITE ''5000'', WORKER, ELAPSE 1500, WORKER] example_sys) = 2000 \<and>
   state (run [FB_EVENT FB_EARLY_EVENT_BLANK FB_BLANK_UNBLANK, WORKER, ELAPSE 500,
               PARAM_WRITE ''5000'', WORKER, ELAPSE 1500, WORKER] example_sys) = NO_BOOST \<and>
   unboost_timer (run [FB_EVENT FB_EARLY_EVENT_BLANK FB_BLANK_UNBLANK, WORKER, ELAPSE 500,
                       PARAM_WRITE ''5000'', WORKER, ELAPSE 1500, WORKER] example_sys)
     = None \<and>
   wq (run [FB_EVENT FB_EARLY_EVENT_BLANK FB_BLANK_UNBLANK, WORKER, ELAPSE 500,
            PARAM_WRITE ''5000'', WORKER, ELAPSE 1500, WORKER] example_sys) = []"
  by (simp add: event_defs wake_boost_def wake_unboost_def update_online_cpu_policy_def
      cpufreq_update_policy_def do_cpu_boost_def msecs_to_jiffies_def example_sys_def
      cpu_wake_boost_init_def example_policy_def FB_BOOST_MS_def FB_EARLY_EVENT_BLANK_def
      FB_BLANK_UNBLANK_def CPUFREQ_ADJUST_def sscanf_u_examples)

end
